theory Spec2Isabelle
  imports Complex_Main
begin

section \<open>Numeric conventions\<close>

text \<open>
  The Python sources compute with IEEE double precision numbers (numpy arrays of
  \<^verbatim>\<open>float64\<close>). The embedding takes a float for the real number it denotes and
  idealises the arithmetic on rates, latencies and states as exact: rounding error,
  infinities and NaN are not represented. Integer quantities (buffer positions, step
  counts) are \<^typ>\<open>int\<close>, as Python's are. Exceptions are values of \<open>py_error\<close>.
\<close>

datatype py_error = IndexError | ValueError | ZeroDivisionError

definition then_do :: "py_error + 'a \<Rightarrow> ('a \<Rightarrow> py_error + 'b) \<Rightarrow> py_error + 'b" where
  "then_do m f = (case m of Inl e \<Rightarrow> Inl e | Inr x \<Rightarrow> f x)"

text \<open>\<^verbatim>\<open>np.rint\<close>: round to the nearest integer, ties to the even neighbour.\<close>

definition rint :: "real \<Rightarrow> int" where
  "rint x =
     (let f = \<lfloor>x\<rfloor>; d = x - of_int f
      in if d < 1 / 2 then f
         else if 1 / 2 < d then f + 1
         else if even f then f else f + 1)"

text \<open>Conversion of a float to an integer (\<^verbatim>\<open>int(x)\<close>): truncation toward zero.\<close>

definition trunc :: "real \<Rightarrow> int" where
  "trunc x = (if 0 \<le> x then \<lfloor>x\<rfloor> else \<lceil>x\<rceil>)"

text \<open>
  Where a float is turned into an integer a rounding error can change the result by a
  whole step (\<open>23.499999999999996\<close> rounds to 23 and \<open>23.5\<close> to 24). At those two places,
  the buffer length of the constructor and the step count of a latency, the float
  operations that feed the conversion are not idealised: the division and the addition
  of the machine are parameters of the model.
\<close>

record float_ops =
  fdiv :: "real \<Rightarrow> real \<Rightarrow> real"
  fadd :: "real \<Rightarrow> real \<Rightarrow> real"

text \<open>
  What the statements below need of the machine's operations, and what correctly rounded
  operations give: the quotient of a non-negative and a positive number is not negative,
  and the sum of two non-negative numbers is not below the second.
\<close>

definition float_ops_ok :: "float_ops \<Rightarrow> bool" where
  "float_ops_ok fo \<longleftrightarrow>
     (\<forall>a b. 0 \<le> a \<and> 0 < b \<longrightarrow> 0 \<le> fdiv fo a b) \<and>
     (\<forall>x y. 0 \<le> x \<and> 0 \<le> y \<longrightarrow> y \<le> fadd fo x y)"

text \<open>The operations without rounding error.\<close>

definition exact_ops :: float_ops where
  "exact_ops = \<lparr> fdiv = (\<lambda>a b. a / b), fadd = (\<lambda>x y. x + y) \<rparr>"

text \<open>
  Reading and writing one slot of a one-row numpy array by an integer index. numpy
  resolves the index against the row length first: a position in \<open>[0, len)\<close> is taken
  as it is, a position in \<open>[-len, 0)\<close> counts from the end of the row, and any other
  position raises \<^verbatim>\<open>IndexError\<close>.
\<close>

definition np_index :: "nat \<Rightarrow> int \<Rightarrow> py_error + nat" where
  "np_index len i =
     (if 0 \<le> i \<and> i < int len then Inr (nat i)
      else if - int len \<le> i \<and> i < 0 then Inr (nat (i + int len))
      else Inl IndexError)"

definition np_get :: "real list \<Rightarrow> int \<Rightarrow> py_error + real" where
  "np_get row i = then_do (np_index (length row) i) (\<lambda>pos. Inr (row ! pos))"

definition np_set :: "real list \<Rightarrow> int \<Rightarrow> real \<Rightarrow> py_error + real list" where
  "np_set row i v = then_do (np_index (length row) i) (\<lambda>pos. Inr (row[pos := v]))"

text \<open>
  Vectors are lists of reals, a matrix is the list of its rows. \<^verbatim>\<open>np.dot\<close> of a
  matrix and a vector, of two vectors, and of a vector and a scalar.
\<close>

definition vec_add :: "real list \<Rightarrow> real list \<Rightarrow> real list" where
  "vec_add xs ys = map2 (+) xs ys"

definition vec_scale :: "real \<Rightarrow> real list \<Rightarrow> real list" where
  "vec_scale s xs = map ((*) s) xs"

definition mat_scale :: "real \<Rightarrow> real list list \<Rightarrow> real list list" where
  "mat_scale s a = map (vec_scale s) a"

definition dot_vv :: "real list \<Rightarrow> real list \<Rightarrow> real" where
  "dot_vv c x = sum_list (map2 (*) c x)"

definition dot_mv :: "real list list \<Rightarrow> real list \<Rightarrow> real list" where
  "dot_mv a x = map (\<lambda>row. dot_vv row x) a"

section \<open>Euler integration of a state-space system\<close>

text \<open>
  \<^verbatim>\<open>integrate(dt, a, b, c, x, u)\<close> of \<^verbatim>\<open>tamura_dynamic_profile.py\<close>. The source function is
  used at two shapes: with a 2x2 matrix and 2-vectors for the early response, and with
  plain scalars for the late response.
\<close>

definition integrate :: "real \<Rightarrow> real list list \<Rightarrow> real list \<Rightarrow> real list \<Rightarrow> real list
    \<Rightarrow> real \<Rightarrow> real list \<times> real" where
  "integrate dt a b c x u =
     (let dxdt = vec_add (dot_mv a x) (vec_scale u b);
          x' = vec_add x (vec_scale dt dxdt);
          y = dot_vv c x'
      in (x', y))"

definition integrate_scalar :: "real \<Rightarrow> real \<Rightarrow> real \<Rightarrow> real \<Rightarrow> real \<Rightarrow> real \<Rightarrow> real \<times> real" where
  "integrate_scalar dt a b c x u =
     (let dxdt = a * x + b * u;
          x' = x + dxdt * dt;
          y = c * x'
      in (x', y))"

section \<open>The Tamura dynamics profile\<close>

text \<open>
  The fields of a \<^verbatim>\<open>TamuraDynamics\<close> object. Every per-neuron array of the source has
  one entry (\<^verbatim>\<open>np.random.rand(1)\<close>, \<^verbatim>\<open>np.zeros((1, n))\<close>), so a one-entry array is a
  real and a one-row matrix is the list of its row. \<open>early_x\<close> is the single column of
  the 2x1 state array. The last field, \<open>arith\<close>, is no attribute of the Python object:
  it holds the float operations of the machine the object lives on.
\<close>

record tamura_dynamics =
  dt :: real
  profile_type :: string
  early_obj_pref :: "string \<rightharpoonup> real"
  min_latencies :: real
  max_latencies :: real
  tau_latencies :: real
  late_additional_latency :: int
  early_memory :: "real list"
  late_memory :: "real list"
  memory_index :: int
  early_tau :: real
  late_tau :: real
  early_A :: "real list list"
  early_B :: "real list"
  late_A :: real
  late_B :: real
  early_C :: "real list"
  late_C :: real
  early_x :: "real list"
  late_x :: real
  arith :: float_ops

text \<open>
  The outcomes of the random draws of the constructor, in the order they are made:
  \<^verbatim>\<open>np.random.rand(1)\<close> (uniform on \<open>[0, 1)\<close>), \<^verbatim>\<open>np.random.gamma(5, .02, 1)\<close>,
  \<^verbatim>\<open>np.random.gamma(2, 20, 1)\<close> (both positive) and two \<^verbatim>\<open>np.random.randn(1)\<close>.
\<close>

record draws =
  rand_min :: real
  gamma_max :: real
  gamma_tau :: real
  randn_early :: real
  randn_late :: real

definition valid_draws :: "draws \<Rightarrow> bool" where
  "valid_draws d \<longleftrightarrow>
     0 \<le> rand_min d \<and> rand_min d < 1 \<and> 0 < gamma_max d \<and> 0 < gamma_tau d"

definition get_early_object_selectivities :: "(string \<rightharpoonup> real) \<Rightarrow> (string \<rightharpoonup> real)" where
  "get_early_object_selectivities late_obj_dict =
     (\<lambda>key. map_option (\<lambda>v. min (v * 2) 1) (late_obj_dict key))"

text \<open>
  \<^verbatim>\<open>TamuraDynamics.__init__(dt, obj_dict, max_latency)\<close>, on a machine with the float
  operations \<open>fo\<close>. The float division \<^verbatim>\<open>max_latency/dt\<close> raises \<^verbatim>\<open>ZeroDivisionError\<close>
  for \<open>dt = 0\<close>. The number of columns handed to \<^verbatim>\<open>np.zeros\<close> is the float
  \<^verbatim>\<open>max_latency/dt + 1 + 10\<close>, summed from left to right; the numpy releases this
  Python 2 code runs on convert it with \<^verbatim>\<open>int(...)\<close>, that is, they truncate it, and a
  negative dimension raises \<^verbatim>\<open>ValueError\<close>.
\<close>

definition init_dynamics :: "float_ops \<Rightarrow> real \<Rightarrow> (string \<rightharpoonup> real) \<Rightarrow> real \<Rightarrow> draws
    \<Rightarrow> py_error + tamura_dynamics" where
  "init_dynamics fo dt0 obj_dict max_latency d =
     (let min_lat = 9 / 100 + 1 / 100 * rand_min d;
          max_lat = min max_latency (min_lat + gamma_max d);
          tau_lat = gamma_tau d;
          late_add = 10
      in if dt0 = 0 then Inl ZeroDivisionError
         else
           let latency_steps = fadd fo (fadd fo (fdiv fo max_latency dt0) 1) (of_int late_add);
               n = trunc latency_steps
           in if n < 0 then Inl ValueError
              else
                let early_gain = (15 / 10) / (39 / 100);
                    late_gain = 1
                in Inr \<lparr> dt = dt0,
                         profile_type = ''Tamura_dynamic_profile'',
                         early_obj_pref = get_early_object_selectivities obj_dict,
                         min_latencies = min_lat,
                         max_latencies = max_lat,
                         tau_latencies = tau_lat,
                         late_additional_latency = late_add,
                         early_memory = replicate (nat n) 0,
                         late_memory = replicate (nat n) 0,
                         memory_index = 0,
                         early_tau = max (5 / 1000) (17 / 1000 + 5 / 1000 * randn_early d),
                         late_tau = 5 / 100 + 1 / 100 * randn_late d,
                         early_A = [[-1, 0], [1, -1]],
                         early_B = [1, 0],
                         late_A = -1,
                         late_B = 1,
                         early_C = [early_gain, - early_gain],
                         late_C = late_gain,
                         early_x = [0, 0],
                         late_x = 0,
                         arith = fo \<rparr>)"

text \<open>\<^verbatim>\<open>_get_latencies\<close>: the latency shrinks exponentially with the response strength.\<close>

definition get_latencies :: "tamura_dynamics \<Rightarrow> real \<Rightarrow> real" where
  "get_latencies st static_rates =
     min_latencies st +
     (max_latencies st - min_latencies st) * exp (- static_rates / tau_latencies st)"

text \<open>
  \<^verbatim>\<open>_get_index\<close>: the buffer position \<open>latency_steps\<close> back from the cursor, the step
  count capped at the buffer length, a negative position shifted up by the length.
\<close>

definition get_index :: "tamura_dynamics \<Rightarrow> int \<Rightarrow> int" where
  "get_index st latency_steps =
     (let n = int (length (early_memory st));
          index = memory_index st - min latency_steps n
      in if index < 0 then index + n else index)"

text \<open>
  \<^verbatim>\<open>_get_lagged_rates\<close>: the lagged inputs of the two linear systems. The step count
  is \<^verbatim>\<open>np.rint\<close> of the float quotient \<^verbatim>\<open>latencies / self.dt\<close>.
\<close>

definition get_lagged_rates :: "tamura_dynamics \<Rightarrow> real \<Rightarrow> py_error + (real \<times> real)" where
  "get_lagged_rates st latencies =
     (let latency_steps = rint (fdiv (arith st) latencies (dt st));
          early_indices = get_index st latency_steps;
          late_indices = get_index st (latency_steps + late_additional_latency st)
      in then_do (np_get (early_memory st) early_indices) (\<lambda>early_u.
         then_do (np_get (late_memory st) late_indices) (\<lambda>late_u.
         Inr (early_u, late_u))))"

text \<open>\<^verbatim>\<open>_step_dynamics\<close>: one Euler step of both systems; the early output is clipped.\<close>

definition step_dynamics :: "tamura_dynamics \<Rightarrow> real \<Rightarrow> real \<Rightarrow> tamura_dynamics \<times> real" where
  "step_dynamics st early_u late_u =
     (let early_a = mat_scale (1 / early_tau st) (early_A st);
          early_b = vec_scale (1 / early_tau st) (early_B st);
          (ex, early_y) = integrate (dt st) early_a early_b (early_C st) (early_x st) early_u;
          late_a = 1 / late_tau st * late_A st;
          late_b = 1 / late_tau st * late_B st;
          (lx, late_y) = integrate_scalar (dt st) late_a late_b (late_C st) (late_x st) late_u;
          y = max 0 early_y + late_y
      in (st\<lparr>early_x := ex, late_x := lx\<rparr>, y))"

text \<open>
  The first two statements of \<^verbatim>\<open>get_dynamic_rates\<close>: the current rates are stored at the
  cursor.
\<close>

definition write_rates :: "tamura_dynamics \<Rightarrow> real \<Rightarrow> real \<Rightarrow> py_error + tamura_dynamics" where
  "write_rates st early_rates late_rates =
     then_do (np_set (early_memory st) (memory_index st) early_rates) (\<lambda>em.
     then_do (np_set (late_memory st) (memory_index st) late_rates) (\<lambda>lm.
     Inr (st\<lparr>early_memory := em, late_memory := lm\<rparr>)))"

text \<open>The cursor moves on by one slot and wraps at the buffer length.\<close>

definition advance_index :: "tamura_dynamics \<Rightarrow> tamura_dynamics" where
  "advance_index st =
     (let i = memory_index st + 1
      in st\<lparr>memory_index := (if i = int (length (early_memory st)) then 0 else i)\<rparr>)"

text \<open>\<^verbatim>\<open>get_dynamic_rates(early_rates, late_rates)\<close>: the per-step update.\<close>

definition get_dynamic_rates :: "tamura_dynamics \<Rightarrow> real \<Rightarrow> real
    \<Rightarrow> py_error + (tamura_dynamics \<times> real)" where
  "get_dynamic_rates st early_rates late_rates =
     then_do (write_rates st early_rates late_rates) (\<lambda>st1.
       let latencies = get_latencies st1 early_rates
       in then_do (get_lagged_rates st1 latencies) (\<lambda>(early_u, late_u).
            Inr (step_dynamics (advance_index st1) early_u late_u)))"

text \<open>
  Consecutive calls of the per-step update, one per pair of input rates; the outputs are
  collected in call order and the first exception ends the run.
\<close>

fun run_dynamics :: "tamura_dynamics \<Rightarrow> (real \<times> real) list
    \<Rightarrow> py_error + (tamura_dynamics \<times> real list)" where
  "run_dynamics st [] = Inr (st, [])"
| "run_dynamics st ((e, l) # rest) =
     then_do (get_dynamic_rates st e l) (\<lambda>(st1, y).
     then_do (run_dynamics st1 rest) (\<lambda>(st2, ys). Inr (st2, y # ys)))"

text \<open>
  What the per-step update relies on: both buffers have the same length and the cursor
  is a position inside them; the extra delay of the late response is not negative, the
  divisors of the update are not zero, and the structural matrices and the shapes of
  the two linear systems are those the constructor sets.
\<close>

definition buffer_ok :: "tamura_dynamics \<Rightarrow> bool" where
  "buffer_ok st \<longleftrightarrow>
     length (late_memory st) = length (early_memory st) \<and>
     0 \<le> memory_index st \<and> memory_index st < int (length (early_memory st))"

definition wf_dynamics :: "tamura_dynamics \<Rightarrow> bool" where
  "wf_dynamics st \<longleftrightarrow>
     buffer_ok st \<and> 0 \<le> late_additional_latency st \<and> dt st \<noteq> 0 \<and>
     early_tau st \<noteq> 0 \<and> late_tau st \<noteq> 0 \<and> tau_latencies st \<noteq> 0 \<and>
     early_A st = [[-1, 0], [1, -1]] \<and> early_B st = [1, 0] \<and>
     late_A st = -1 \<and> late_B st = 1 \<and>
     length (early_C st) = 2 \<and> length (early_x st) = 2"

text \<open>
  An engine at rest: nothing but zeros in both buffers and in both state vectors, with
  the structural matrices of the early system as the constructor sets them.
\<close>

definition at_rest :: "tamura_dynamics \<Rightarrow> bool" where
  "at_rest st \<longleftrightarrow>
     early_memory st = replicate (length (early_memory st)) 0 \<and>
     late_memory st = replicate (length (late_memory st)) 0 \<and>
     early_x st = [0, 0] \<and> late_x st = 0 \<and>
     early_A st = [[-1, 0], [1, -1]] \<and> early_B st = [1, 0]"

section \<open>The neuron\<close>

text \<open>
  A value of a numpy expression: a Python scalar or a one-dimensional array.
  Multiplication broadcasts a scalar, and an array of length one, over the other operand;
  arrays of other different lengths raise \<^verbatim>\<open>ValueError\<close>.
\<close>

datatype np_value = Scalar real | Array "real list"

fun np_mul :: "np_value \<Rightarrow> np_value \<Rightarrow> py_error + np_value" where
  "np_mul (Scalar a) (Scalar b) = Inr (Scalar (a * b))"
| "np_mul (Scalar a) (Array ys) = Inr (Array (map (\<lambda>y. a * y) ys))"
| "np_mul (Array xs) (Scalar b) = Inr (Array (map (\<lambda>x. x * b) xs))"
| "np_mul (Array xs) (Array ys) =
     (if length xs = length ys then Inr (Array (map2 (*) xs ys))
      else if length xs = 1 then Inr (Array (map (\<lambda>y. hd xs * y) ys))
      else if length ys = 1 then Inr (Array (map (\<lambda>x. x * hd ys) xs))
      else Inl ValueError)"

text \<open>
  One entry of the ground truth list:
  \<^verbatim>\<open>(object_name, x, y, size, rot_x, rot_y, rot_z, vis_nondiag, vis_diag)\<close>.
\<close>

type_synonym ground_truth =
  "string \<times> real \<times> real \<times> real \<times> real \<times> real \<times> real \<times> real \<times> real"

text \<open>
  \<^verbatim>\<open>CompleteTolerance.firing_rate_modifier\<close> returns the integer 1 whatever it is given;
  it stands for a profile of one argument and of two.
\<close>

definition complete_tolerance :: "real list \<Rightarrow> np_value" where
  "complete_tolerance args = Scalar 1"

definition complete_tolerance2 :: "real list \<Rightarrow> real list \<Rightarrow> np_value" where
  "complete_tolerance2 args1 args2 = Scalar 1"

text \<open>
  The fields of a \<^verbatim>\<open>Neuron\<close> that \<^verbatim>\<open>firing_rate\<close> reads. The selectivity, position,
  size, occlusion and clutter profile classes live in modules outside these sources;
  the neuron holds what \<^verbatim>\<open>firing_rate\<close> uses of them: the preference dictionary
  \<^verbatim>\<open>selectivity.objects\<close> and each profile's \<^verbatim>\<open>firing_rate_modifier\<close>. The clutter
  modifier yields the joint rate, a single number.
\<close>

record neuron =
  selectivity_objects :: "string \<rightharpoonup> real"
  max_fire_rate :: real
  dynamics :: "tamura_dynamics option"
  position :: "real list \<Rightarrow> real list \<Rightarrow> np_value"
  size_profile :: "real list \<Rightarrow> np_value"
  occlusion :: "real list \<Rightarrow> real list \<Rightarrow> np_value"
  clutter :: "np_value \<Rightarrow> np_value \<Rightarrow> real"

text \<open>
  \<^verbatim>\<open>Neuron._get_static_firing_rate(object_dict, ground_truth_list)\<close>. Unpacking
  \<^verbatim>\<open>zip(*ground_truth_list)\<close> into nine names raises \<^verbatim>\<open>ValueError\<close> on an empty list.
\<close>

definition get_static_firing_rate :: "neuron \<Rightarrow> (string \<rightharpoonup> real) \<Rightarrow> ground_truth list
    \<Rightarrow> py_error + real" where
  "get_static_firing_rate n object_dict ground_truth_list =
     (if ground_truth_list = [] then Inl ValueError
      else
        let objects = map (\<lambda>(obj, x, y, s, rx, ry, rz, vn, vd). obj) ground_truth_list;
            x_arr = map (\<lambda>(obj, x, y, s, rx, ry, rz, vn, vd). x) ground_truth_list;
            y_arr = map (\<lambda>(obj, x, y, s, rx, ry, rz, vn, vd). y) ground_truth_list;
            size_arr = map (\<lambda>(obj, x, y, s, rx, ry, rz, vn, vd). s) ground_truth_list;
            vis_nd = map (\<lambda>(obj, x, y, s, rx, ry, rz, vn, vd). vn) ground_truth_list;
            vis_d = map (\<lambda>(obj, x, y, s, rx, ry, rz, vn, vd). vd) ground_truth_list;
            obj_pref_list =
              Array (map (\<lambda>obj. case object_dict obj of None \<Rightarrow> 0 | Some v \<Rightarrow> v) objects);
            position_weights = position n x_arr y_arr
        in then_do (np_mul (Scalar (max_fire_rate n)) obj_pref_list) (\<lambda>r1.
           then_do (np_mul r1 position_weights) (\<lambda>r2.
           then_do (np_mul r2 (size_profile n size_arr)) (\<lambda>r3.
           then_do (np_mul r3 (occlusion n vis_nd vis_d)) (\<lambda>isolated_rates.
           Inr (clutter n isolated_rates position_weights))))))"

text \<open>
  \<^verbatim>\<open>Neuron.firing_rate(ground_truth_list)\<close>. The dynamic branch is taken when a dynamics
  profile is attached and its \<^verbatim>\<open>type\<close> attribute equals the string \<^verbatim>\<open>'tamura'\<close>.
\<close>

definition firing_rate :: "neuron \<Rightarrow> ground_truth list \<Rightarrow> py_error + (neuron \<times> real)" where
  "firing_rate n ground_truth_list =
     (case dynamics n of
        Some d \<Rightarrow>
          if profile_type d = ''tamura'' then
            then_do
              (if ground_truth_list \<noteq> [] then
                 then_do (get_static_firing_rate n (selectivity_objects n) ground_truth_list)
                   (\<lambda>default_rate.
                 then_do (get_static_firing_rate n (early_obj_pref d) ground_truth_list)
                   (\<lambda>early_rate. Inr (early_rate, default_rate)))
               else Inr (0, 0))
              (\<lambda>(early_rate, default_rate).
            then_do (get_dynamic_rates d early_rate default_rate) (\<lambda>(d', rate).
            Inr (n\<lparr>dynamics := Some d'\<rparr>, rate)))
          else if ground_truth_list \<noteq> [] then
            then_do (get_static_firing_rate n (selectivity_objects n) ground_truth_list)
              (\<lambda>rate. Inr (n, rate))
          else Inr (n, 0)
      | None \<Rightarrow>
          if ground_truth_list \<noteq> [] then
            then_do (get_static_firing_rate n (selectivity_objects n) ground_truth_list)
              (\<lambda>rate. Inr (n, rate))
          else Inr (n, 0))"

text \<open>Consecutive calls of \<^verbatim>\<open>firing_rate\<close> on one neuron, one per scene.\<close>

fun run_scenes :: "neuron \<Rightarrow> ground_truth list list \<Rightarrow> py_error + (neuron \<times> real list)" where
  "run_scenes n [] = Inr (n, [])"
| "run_scenes n (scene # rest) =
     then_do (firing_rate n scene) (\<lambda>(n1, r).
     then_do (run_scenes n1 rest) (\<lambda>(n2, rs). Inr (n2, r # rs)))"

section \<open>Concrete objects\<close>

text \<open>
  An engine as the module's own main block builds it (time step 5 ms, default latency
  ceiling 0.25 s), for one outcome of the random draws, and a second engine built with
  a latency ceiling of 10 ms. Both compute their step counts without rounding error;
  at the rates used below the machine's quotients round to the same step counts.
\<close>

definition demo_draws :: draws where
  "demo_draws =
     \<lparr> rand_min = 0, gamma_max = 1 / 5, gamma_tau = 5, randn_early = 0, randn_late = 0 \<rparr>"

definition demo_prefs :: "string \<rightharpoonup> real" where
  "demo_prefs = [''A'' \<mapsto> 1 / 2]"

definition demo_dynamics :: tamura_dynamics where
  "demo_dynamics =
     \<lparr> dt = 5 / 1000,
       profile_type = ''Tamura_dynamic_profile'',
       early_obj_pref = get_early_object_selectivities demo_prefs,
       min_latencies = 9 / 100,
       max_latencies = 1 / 4,
       tau_latencies = 5,
       late_additional_latency = 10,
       early_memory = replicate 61 0,
       late_memory = replicate 61 0,
       memory_index = 0,
       early_tau = 17 / 1000,
       late_tau = 5 / 100,
       early_A = [[-1, 0], [1, -1]],
       early_B = [1, 0],
       late_A = -1,
       late_B = 1,
       early_C = [50 / 13, - (50 / 13)],
       late_C = 1,
       early_x = [0, 0],
       late_x = 0,
       arith = exact_ops \<rparr>"

definition short_dynamics :: tamura_dynamics where
  "short_dynamics =
     demo_dynamics \<lparr> max_latencies := 1 / 100,
                     early_memory := replicate 13 0,
                     late_memory := replicate 13 0 \<rparr>"



text \<open>A neuron without dynamics, with complete tolerances and a plain averaging clutter rule.\<close>

definition demo_neuron :: neuron where
  "demo_neuron =
     \<lparr> selectivity_objects = demo_prefs,
       max_fire_rate = 100,
       dynamics = None,
       position = complete_tolerance2,
       size_profile = complete_tolerance,
       occlusion = complete_tolerance2,
       clutter = (\<lambda>rates weights.
         case rates of Scalar r \<Rightarrow> r | Array rs \<Rightarrow> sum_list rs / real (length rs)) \<rparr>"

section \<open>The constructor on concrete inputs\<close>

lemma init_demo_dynamics:
  "init_dynamics exact_ops (5 / 1000) demo_prefs (1 / 4) demo_draws = Inr demo_dynamics"
  by (simp add: init_dynamics_def demo_draws_def demo_dynamics_def exact_ops_def trunc_def
      Let_def)

lemma init_short_dynamics:
  "init_dynamics exact_ops (5 / 1000) demo_prefs (1 / 100) demo_draws = Inr short_dynamics"
  by (simp add: init_dynamics_def demo_draws_def demo_dynamics_def short_dynamics_def
      exact_ops_def trunc_def Let_def)

section \<open>Basic facts about the buffer operations\<close>

lemma exact_ops_simps [simp]:
  "fdiv exact_ops a b = a / b" "fadd exact_ops x y = x + y"
  by (simp_all add: exact_ops_def)

lemma exact_ops_ok: "float_ops_ok exact_ops"
  by (simp add: float_ops_ok_def)

lemma then_do_Inr [simp]: "then_do (Inr x) f = f x"
  by (simp add: then_do_def)

lemma then_do_Inl [simp]: "then_do (Inl e) f = Inl e"
  by (simp add: then_do_def)

lemma then_do_eq_Inr:
  "then_do m f = Inr y \<longleftrightarrow> (\<exists>x. m = Inr x \<and> f x = Inr y)"
  by (cases m) simp_all

lemma np_get_in_range:
  "0 \<le> i \<Longrightarrow> i < int (length xs) \<Longrightarrow> np_get xs i = Inr (xs ! nat i)"
  by (simp add: np_get_def np_index_def)

lemma np_set_in_range:
  "0 \<le> i \<Longrightarrow> i < int (length xs) \<Longrightarrow> np_set xs i v = Inr (xs[nat i := v])"
  by (simp add: np_set_def np_index_def)

lemma get_index_eq:
  "get_index st k =
     (let n = int (length (early_memory st)); m = min k n
      in if memory_index st < m then memory_index st - m + n else memory_index st - m)"
  by (simp add: get_index_def Let_def)

lemma get_index_bounds:
  assumes "0 \<le> k" and "0 \<le> memory_index st"
    and "memory_index st < int (length (early_memory st))"
  shows "0 \<le> get_index st k" and "get_index st k < int (length (early_memory st))"
  using assms by (auto simp: get_index_eq Let_def min_def)

lemma get_index_mod:
  assumes "0 \<le> k" and "0 \<le> memory_index st"
    and "memory_index st < int (length (early_memory st))"
  shows "get_index st k =
           (memory_index st - min k (int (length (early_memory st))))
             mod int (length (early_memory st))"
proof -
  define n where "n = int (length (early_memory st))"
  define c where "c = memory_index st"
  define m where "m = min k n"
  have c: "0 \<le> c" "c < n" using assms by (simp_all add: n_def c_def)
  have m: "0 \<le> m" "m \<le> n" using assms(1) c by (simp_all add: m_def)
  have idx: "get_index st k = (if c - m < 0 then c - m + n else c - m)"
    by (simp add: get_index_def Let_def n_def c_def m_def)
  have "(c - m) mod n = (if c - m < 0 then c - m + n else c - m)"
  proof (cases "c - m < 0")
    case True
    have "(c - m) mod n = (c - m + n) mod n" by simp
    also have "\<dots> = c - m + n" using True c m by (intro mod_pos_pos_trivial) linarith+
    finally show ?thesis using True by simp
  next
    case False
    then show ?thesis using c m by (simp add: mod_pos_pos_trivial)
  qed
  then show ?thesis unfolding idx by (simp add: n_def c_def m_def)
qed

lemma get_index_saturated:
  assumes "int (length (early_memory st)) \<le> k" and "0 \<le> memory_index st"
    and "memory_index st < int (length (early_memory st))"
  shows "get_index st k = memory_index st"
  using assms by (simp add: get_index_eq Let_def min_def)

lemma write_rates_ok:
  assumes "buffer_ok st"
  shows "write_rates st e l =
           Inr (st\<lparr>early_memory := (early_memory st)[nat (memory_index st) := e],
                   late_memory := (late_memory st)[nat (memory_index st) := l]\<rparr>)"
  using assms by (simp add: write_rates_def buffer_ok_def np_set_in_range)

lemma get_index_write [simp]:
  "get_index (st\<lparr>early_memory := (early_memory st)[i := e], late_memory := lm\<rparr>) k = get_index st k"
  by (simp add: get_index_def)

lemma get_lagged_rates_ok:
  assumes "buffer_ok st" and "0 \<le> late_additional_latency st"
    and "0 \<le> rint (fdiv (arith st) latencies (dt st))"
  shows "get_lagged_rates st latencies =
           Inr (early_memory st ! nat (get_index st (rint (fdiv (arith st) latencies (dt st)))),
                late_memory st !
                  nat (get_index st (rint (fdiv (arith st) latencies (dt st)) + late_additional_latency st)))"
proof -
  let ?k = "rint (fdiv (arith st) latencies (dt st))"
  have c: "0 \<le> memory_index st" "memory_index st < int (length (early_memory st))"
    and len: "length (late_memory st) = length (early_memory st)"
    using assms(1) by (simp_all add: buffer_ok_def)
  have k2: "0 \<le> ?k + late_additional_latency st" using assms by simp
  show ?thesis
    using get_index_bounds [OF assms(3) c] get_index_bounds [OF k2 c] len
    by (simp add: get_lagged_rates_def Let_def np_get_in_range)
qed

section \<open>The delayed-sample index\<close>

text \<open>
  Claim C5. For every requested delay \<open>k \<ge> 0\<close> and every cursor position inside the
  buffer, the index computed by \<^verbatim>\<open>_get_index\<close> equals
  \<open>(cursor - min k buffer_length) mod buffer_length\<close> and lies in
  \<open>[0, buffer_length)\<close>: a lookup of the history buffer is never out of bounds.
\<close>

theorem get_index_in_range:
  assumes "0 \<le> k" and "0 \<le> memory_index st"
    and "memory_index st < int (length (early_memory st))"
  shows "0 \<le> get_index st k \<and> get_index st k < int (length (early_memory st)) \<and>
         get_index st k =
           (memory_index st - min k (int (length (early_memory st))))
             mod int (length (early_memory st)) \<and>
         np_get (early_memory st) (get_index st k)
           = Inr (early_memory st ! nat (get_index st k))"
  using get_index_bounds [OF assms] get_index_mod [OF assms]
  by (simp add: np_get_in_range)

theorem get_index_in_range_witness:
  "(0::int) \<le> 70 \<and> 0 \<le> memory_index demo_dynamics \<and>
   memory_index demo_dynamics < int (length (early_memory demo_dynamics)) \<and>
   0 \<le> get_index demo_dynamics 70 \<and>
   get_index demo_dynamics 70 < int (length (early_memory demo_dynamics))"
  using get_index_in_range [of 70 demo_dynamics] by (simp add: demo_dynamics_def)

section \<open>The latency model\<close>



section \<open>The per-step update\<close>

lemma advance_index_fields [simp]:
  "early_memory (advance_index st) = early_memory st"
  "late_memory (advance_index st) = late_memory st"
  "early_x (advance_index st) = early_x st"
  "late_x (advance_index st) = late_x st"
  "memory_index (advance_index st) =
     (if memory_index st + 1 = int (length (early_memory st)) then 0 else memory_index st + 1)"
  by (simp_all add: advance_index_def Let_def)

lemma advance_index_params [simp]:
  "dt (advance_index st) = dt st"
  "min_latencies (advance_index st) = min_latencies st"
  "max_latencies (advance_index st) = max_latencies st"
  "tau_latencies (advance_index st) = tau_latencies st"
  "late_additional_latency (advance_index st) = late_additional_latency st"
  "early_tau (advance_index st) = early_tau st"
  "late_tau (advance_index st) = late_tau st"
  "early_A (advance_index st) = early_A st"
  "early_B (advance_index st) = early_B st"
  "early_C (advance_index st) = early_C st"
  "late_A (advance_index st) = late_A st"
  "late_B (advance_index st) = late_B st"
  "late_C (advance_index st) = late_C st"
  "arith (advance_index st) = arith st"
  by (simp_all add: advance_index_def Let_def)

lemma step_dynamics_params [simp]:
  "dt (fst (step_dynamics st eu lu)) = dt st"
  "min_latencies (fst (step_dynamics st eu lu)) = min_latencies st"
  "max_latencies (fst (step_dynamics st eu lu)) = max_latencies st"
  "tau_latencies (fst (step_dynamics st eu lu)) = tau_latencies st"
  "late_additional_latency (fst (step_dynamics st eu lu)) = late_additional_latency st"
  "early_tau (fst (step_dynamics st eu lu)) = early_tau st"
  "late_tau (fst (step_dynamics st eu lu)) = late_tau st"
  "early_A (fst (step_dynamics st eu lu)) = early_A st"
  "early_B (fst (step_dynamics st eu lu)) = early_B st"
  "early_C (fst (step_dynamics st eu lu)) = early_C st"
  "late_A (fst (step_dynamics st eu lu)) = late_A st"
  "late_B (fst (step_dynamics st eu lu)) = late_B st"
  "late_C (fst (step_dynamics st eu lu)) = late_C st"
  "arith (fst (step_dynamics st eu lu)) = arith st"
  by (simp_all add: step_dynamics_def Let_def split: prod.splits)

lemma step_dynamics_fields [simp]:
  "early_memory (fst (step_dynamics st eu lu)) = early_memory st"
  "late_memory (fst (step_dynamics st eu lu)) = late_memory st"
  "memory_index (fst (step_dynamics st eu lu)) = memory_index st"
  by (simp_all add: step_dynamics_def Let_def split: prod.splits)

lemma step_dynamics_output:
  "snd (step_dynamics st eu lu) =
     max 0 (snd (integrate (dt st) (mat_scale (1 / early_tau st) (early_A st))
                   (vec_scale (1 / early_tau st) (early_B st)) (early_C st) (early_x st) eu))
     + snd (integrate_scalar (dt st) (1 / late_tau st * late_A st) (1 / late_tau st * late_B st)
              (late_C st) (late_x st) lu)"
  by (simp add: step_dynamics_def Let_def split: prod.splits)

text \<open>The per-step update written out, for a state whose buffers and cursor fit.\<close>

lemma get_dynamic_rates_ok:
  assumes "buffer_ok st" and "0 \<le> late_additional_latency st"
    and "0 \<le> rint (fdiv (arith st) (get_latencies st e) (dt st))"
  shows "get_dynamic_rates st e l =
           (let st1 = st\<lparr>early_memory := (early_memory st)[nat (memory_index st) := e],
                         late_memory := (late_memory st)[nat (memory_index st) := l]\<rparr>;
                k = rint (fdiv (arith st) (get_latencies st e) (dt st));
                early_u = early_memory st1 ! nat (get_index st k);
                late_u = late_memory st1 ! nat (get_index st (k + late_additional_latency st))
            in Inr (step_dynamics (advance_index st1) early_u late_u))"
proof -
  let ?st1 = "st\<lparr>early_memory := (early_memory st)[nat (memory_index st) := e],
                  late_memory := (late_memory st)[nat (memory_index st) := l]\<rparr>"
  have ok1: "buffer_ok ?st1" using assms(1) by (simp add: buffer_ok_def)
  have lat: "get_latencies ?st1 e = get_latencies st e" by (simp add: get_latencies_def)
  have k: "0 \<le> rint (fdiv (arith ?st1) (get_latencies ?st1 e) (dt ?st1))" using assms(3) lat by simp
  have add: "0 \<le> late_additional_latency ?st1" using assms(2) by simp
  show ?thesis
    unfolding get_dynamic_rates_def write_rates_ok [OF assms(1)] then_do_Inr Let_def
      get_lagged_rates_ok [OF ok1 add k]
    by (simp add: lat)
qed

lemma get_dynamic_rates_buffer:
  assumes "buffer_ok st" and "get_dynamic_rates st e l = Inr (st', y)"
  shows "early_memory st' = (early_memory st)[nat (memory_index st) := e]"
    and "late_memory st' = (late_memory st)[nat (memory_index st) := l]"
    and "memory_index st' =
           (if memory_index st + 1 = int (length (early_memory st)) then 0
            else memory_index st + 1)"
proof -
  let ?st1 = "st\<lparr>early_memory := (early_memory st)[nat (memory_index st) := e],
                  late_memory := (late_memory st)[nat (memory_index st) := l]\<rparr>"
  from assms(2) obtain eu lu where "step_dynamics (advance_index ?st1) eu lu = (st', y)"
    unfolding get_dynamic_rates_def write_rates_ok [OF assms(1)] then_do_Inr Let_def
    by (auto simp: then_do_eq_Inr)
  then have st': "st' = fst (step_dynamics (advance_index ?st1) eu lu)" by simp
  show "early_memory st' = (early_memory st)[nat (memory_index st) := e]"
    and "late_memory st' = (late_memory st)[nat (memory_index st) := l]"
    and "memory_index st' =
           (if memory_index st + 1 = int (length (early_memory st)) then 0
            else memory_index st + 1)"
    unfolding st' by simp_all
qed

lemma get_dynamic_rates_buffer_ok:
  assumes "buffer_ok st" and "get_dynamic_rates st e l = Inr (st', y)"
  shows "buffer_ok st'" and "length (early_memory st') = length (early_memory st)"
  using assms(1) get_dynamic_rates_buffer [OF assms]
  by (auto simp: buffer_ok_def)

text \<open>One Euler step of each linear system, written out for the shapes of the engine.\<close>

lemma integrate_two_states:
  "integrate h [[a11, a12], [a21, a22]] [b1, b2] [c1, c2] [x1, x2] u =
     ([x1 + h * (a11 * x1 + a12 * x2 + u * b1), x2 + h * (a21 * x1 + a22 * x2 + u * b2)],
      c1 * (x1 + h * (a11 * x1 + a12 * x2 + u * b1)) +
      c2 * (x2 + h * (a21 * x1 + a22 * x2 + u * b2)))"
  by (simp add: integrate_def vec_add_def vec_scale_def dot_mv_def dot_vv_def Let_def)

lemma list_of_two:
  assumes "length xs = 2"
  shows "xs = [xs ! 0, xs ! 1]"
proof -
  obtain a ys where xs: "xs = a # ys" using assms by (cases xs) simp_all
  obtain b zs where ys: "ys = b # zs" using assms xs by (cases ys) simp_all
  show ?thesis using assms by (simp add: xs ys)
qed

lemma early_step_output:
  assumes "early_A st = [[-1, 0], [1, -1]]" and "early_B st = [1, 0]"
    and "length (early_C st) = 2" and "length (early_x st) = 2"
  shows "integrate (dt st) (mat_scale (1 / early_tau st) (early_A st))
             (vec_scale (1 / early_tau st) (early_B st)) (early_C st) (early_x st) u =
           ([early_x st ! 0 + dt st * ((u - early_x st ! 0) / early_tau st),
             early_x st ! 1 + dt st * ((early_x st ! 0 - early_x st ! 1) / early_tau st)],
            early_C st ! 0 * (early_x st ! 0 + dt st * ((u - early_x st ! 0) / early_tau st)) +
            early_C st ! 1 *
              (early_x st ! 1 + dt st * ((early_x st ! 0 - early_x st ! 1) / early_tau st)))"
proof -
  have c: "early_C st = [early_C st ! 0, early_C st ! 1]" using assms(3) by (rule list_of_two)
  have x: "early_x st = [early_x st ! 0, early_x st ! 1]" using assms(4) by (rule list_of_two)
  have "integrate (dt st) (mat_scale (1 / early_tau st) (early_A st))
             (vec_scale (1 / early_tau st) (early_B st)) (early_C st) (early_x st) u =
        integrate (dt st) [[1 / early_tau st * (-1), 1 / early_tau st * 0],
                            [1 / early_tau st * 1, 1 / early_tau st * (-1)]]
             [1 / early_tau st * 1, 1 / early_tau st * 0]
             [early_C st ! 0, early_C st ! 1] [early_x st ! 0, early_x st ! 1] u"
    using c x by (simp add: assms(1,2) mat_scale_def vec_scale_def)
  then show ?thesis
    unfolding integrate_two_states by (simp add: algebra_simps diff_divide_distrib)
qed


text \<open>Every step keeps an engine well-formed.\<close>

lemma step_dynamics_early_x_length:
  assumes "early_A st = [[-1, 0], [1, -1]]" and "early_B st = [1, 0]"
    and "length (early_C st) = 2" and "length (early_x st) = 2"
  shows "length (early_x (fst (step_dynamics st eu lu))) = 2"
  by (simp add: step_dynamics_def Let_def early_step_output [OF assms] split: prod.splits)

lemma get_dynamic_rates_wf:
  assumes "wf_dynamics st" and "get_dynamic_rates st e l = Inr (st', y)"
  shows "wf_dynamics st'"
proof -
  have ok: "buffer_ok st" using assms(1) by (simp add: wf_dynamics_def)
  let ?st1 = "st\<lparr>early_memory := (early_memory st)[nat (memory_index st) := e],
                  late_memory := (late_memory st)[nat (memory_index st) := l]\<rparr>"
  from assms(2) obtain eu lu where "step_dynamics (advance_index ?st1) eu lu = (st', y)"
    unfolding get_dynamic_rates_def write_rates_ok [OF ok] then_do_Inr Let_def
    by (auto simp: then_do_eq_Inr)
  then have st': "st' = fst (step_dynamics (advance_index ?st1) eu lu)" by simp
  have sh: "early_A (advance_index ?st1) = [[-1, 0], [1, -1]]"
    "early_B (advance_index ?st1) = [1, 0]"
    "length (early_C (advance_index ?st1)) = 2" "length (early_x (advance_index ?st1)) = 2"
    using assms(1) by (simp_all add: wf_dynamics_def)
  have x: "length (early_x st') = 2"
    unfolding st' by (rule step_dynamics_early_x_length [OF sh])
  have ok': "buffer_ok st'" using get_dynamic_rates_buffer_ok(1) [OF ok assms(2)] .
  show ?thesis using assms(1) ok' x by (simp add: wf_dynamics_def st')
qed




section \<open>The history buffer over consecutive steps\<close>

lemma run_dynamics_snoc:
  "run_dynamics st (ins @ [(e, l)]) =
     then_do (run_dynamics st ins) (\<lambda>(st1, ys).
     then_do (get_dynamic_rates st1 e l) (\<lambda>(st2, y). Inr (st2, ys @ [y])))"
proof (induction ins arbitrary: st)
  case Nil
  show ?case by (cases "get_dynamic_rates st e l") (auto split: prod.splits)
next
  case (Cons a ins)
  obtain e0 l0 where a: "a = (e0, l0)" by (cases a)
  show ?case
  proof (cases "get_dynamic_rates st e0 l0")
    case (Inl err)
    then show ?thesis by (simp add: a)
  next
    case (Inr r)
    obtain st1 y where r: "r = (st1, y)" by (cases r)
    show ?thesis
    proof (cases "run_dynamics st1 ins")
      case (Inl err)
      then show ?thesis using Inr r Cons.IH [of st1] by (simp add: a)
    next
      case (Inr r2)
      obtain st2 ys where r2: "r2 = (st2, ys)" by (cases r2)
      show ?thesis
        using \<open>get_dynamic_rates st e0 l0 = Inr r\<close> r Inr r2 Cons.IH [of st1]
        by (cases "get_dynamic_rates st2 e l") (auto simp: a split: prod.splits)
    qed
  qed
qed

lemma back_slot:
  fixes c n j :: int
  assumes "0 \<le> c" and "c < n" and "0 \<le> j" and "j < n"
  shows "0 \<le> (c - j) mod n" and "(c - j) mod n < n"
    and "(c - j) mod n = (if c < j then c - j + n else c - j)"
proof -
  have n: "0 < n" using assms by linarith
  show "0 \<le> (c - j) mod n" "(c - j) mod n < n" using n by simp_all
  show "(c - j) mod n = (if c < j then c - j + n else c - j)"
  proof (cases "c < j")
    case True
    have "(c - j) mod n = (c - j + n) mod n" by simp
    also have "\<dots> = c - j + n" using True assms by (intro mod_pos_pos_trivial) linarith+
    finally show ?thesis using True by simp
  next
    case False
    then show ?thesis using assms by (simp add: mod_pos_pos_trivial)
  qed
qed

lemma advance_back:
  fixes c n j :: int
  assumes "0 \<le> c" and "c < n"
  shows "((if c + 1 = n then 0 else c + 1) - 1 - j) mod n = (c - j) mod n"
proof (cases "c + 1 = n")
  case True
  then have e: "(0::int) - 1 - j = (c - j) - n" by linarith
  show ?thesis unfolding if_P [OF True] e by (rule minus_mod_self2)
next
  case False
  then show ?thesis by simp
qed

lemma run_dynamics_history:
  assumes "buffer_ok st0" and "run_dynamics st0 ins = Inr (st, ys)"
  shows "buffer_ok st \<and> length (early_memory st) = length (early_memory st0) \<and>
         (\<forall>j. j < length ins \<longrightarrow> j < length (early_memory st0) \<longrightarrow>
            early_memory st !
              nat ((memory_index st - 1 - int j) mod int (length (early_memory st0)))
              = fst (rev ins ! j) \<and>
            late_memory st !
              nat ((memory_index st - 1 - int j) mod int (length (early_memory st0)))
              = snd (rev ins ! j))"
  using assms(2)
proof (induction ins arbitrary: st ys rule: rev_induct)
  case Nil
  then show ?case using assms(1) by simp
next
  case (snoc x ins)
  obtain e l where x: "x = (e, l)" by (cases x)
  from snoc.prems obtain st1 ys1 y where
    run1: "run_dynamics st0 ins = Inr (st1, ys1)" and
    stp: "get_dynamic_rates st1 e l = Inr (st, y)"
    unfolding x run_dynamics_snoc by (auto simp: then_do_eq_Inr)
  define n where "n = int (length (early_memory st0))"
  define c where "c = memory_index st1"
  from snoc.IH [OF run1] have ok1: "buffer_ok st1"
    and len1: "length (early_memory st1) = length (early_memory st0)"
    and hist1: "\<And>j. j < length ins \<Longrightarrow> j < length (early_memory st0) \<Longrightarrow>
            early_memory st1 ! nat ((c - 1 - int j) mod n) = fst (rev ins ! j) \<and>
            late_memory st1 ! nat ((c - 1 - int j) mod n) = snd (rev ins ! j)"
    by (simp_all add: n_def c_def)
  have c: "0 \<le> c" "c < n" and len1': "length (late_memory st1) = length (early_memory st0)"
    using ok1 len1 by (simp_all add: buffer_ok_def n_def c_def)
  note buf = get_dynamic_rates_buffer [OF ok1 stp]
  have ok: "buffer_ok st" and len: "length (early_memory st) = length (early_memory st0)"
    using get_dynamic_rates_buffer_ok [OF ok1 stp] len1 by simp_all
  have idx: "memory_index st = (if c + 1 = n then 0 else c + 1)"
    using buf(3) len1 by (simp add: c_def n_def)
  have "early_memory st ! nat ((memory_index st - 1 - int j) mod n) = fst (rev (ins @ [x]) ! j) \<and>
        late_memory st ! nat ((memory_index st - 1 - int j) mod n) = snd (rev (ins @ [x]) ! j)"
    if j: "j < length (ins @ [x])" "j < length (early_memory st0)" for j
  proof -
    have jn: "0 \<le> int j" "int j < n" using j by (simp_all add: n_def)
    have pos: "(memory_index st - 1 - int j) mod n = (c - int j) mod n"
      unfolding idx using advance_back [OF c] by simp
    show ?thesis
    proof (cases j)
      case 0
      then have "(c - int j) mod n = c" using c by simp
      then have p: "nat ((memory_index st - 1 - int j) mod n) = nat (memory_index st1)"
        using pos by (simp add: c_def)
      have "nat (memory_index st1) < length (early_memory st1)"
        and "nat (memory_index st1) < length (late_memory st1)"
        using c len1 len1' by (simp_all add: c_def n_def)
      then show ?thesis
        unfolding p buf(1,2) using 0 by (simp add: x)
    next
      case (Suc i)
      have i: "i < length ins" "i < length (early_memory st0)" using j Suc by simp_all
      have ne: "(c - int j) mod n \<noteq> c"
        using back_slot(3) [OF c jn] jn Suc by (auto split: if_splits)
      have ge: "0 \<le> (c - int j) mod n" using back_slot(1) [OF c jn] .
      have ne': "nat c \<noteq> nat ((c - int j) mod n)"
      proof
        assume "nat c = nat ((c - int j) mod n)"
        then have "c = (c - int j) mod n" using ge c(1) by linarith
        then show False using ne by simp
      qed
      have eq: "c - int j = c - 1 - int i" using Suc by simp
      have h: "early_memory st1 ! nat ((c - int j) mod n) = fst (rev ins ! i) \<and>
               late_memory st1 ! nat ((c - int j) mod n) = snd (rev ins ! i)"
        using hist1 [OF i] unfolding eq .
      have r: "rev (ins @ [x]) ! j = rev ins ! i" using Suc by simp
      show ?thesis
        unfolding pos buf(1,2) c_def [symmetric] r using h ne' by simp
    qed
  qed
  then show ?case using ok len by (simp add: n_def)
qed

text \<open>
  Claim C3. Round trip of the history buffer. After \<open>N\<close> steps (the inputs \<open>prev\<close>,
  \<open>N\<close> smaller than the buffer length) the current step writes \<open>(e, l)\<close>; a read with
  delay \<open>k \<le> N\<close> then returns, on either channel, the value written \<open>k\<close> steps
  before the current one, and \<open>k = 0\<close> gives the value just written.
\<close>

theorem history_round_trip:
  assumes "buffer_ok st0" and "run_dynamics st0 prev = Inr (st, ys)"
    and "length prev < length (early_memory st0)" and "k \<le> length prev"
  shows "then_do (write_rates st e l)
           (\<lambda>st1. np_get (early_memory st1) (get_index st1 (int k)))
           = Inr (fst ((prev @ [(e, l)]) ! (length prev - k))) \<and>
         then_do (write_rates st e l)
           (\<lambda>st1. np_get (late_memory st1) (get_index st1 (int k)))
           = Inr (snd ((prev @ [(e, l)]) ! (length prev - k)))"
proof -
  define n where "n = int (length (early_memory st0))"
  define c where "c = memory_index st"
  note h = run_dynamics_history [OF assms(1,2)]
  from h have ok: "buffer_ok st" and len: "length (early_memory st) = length (early_memory st0)"
    by simp_all
  have hist: "\<And>j. j < length prev \<Longrightarrow>
            early_memory st ! nat ((c - 1 - int j) mod n) = fst (rev prev ! j) \<and>
            late_memory st ! nat ((c - 1 - int j) mod n) = snd (rev prev ! j)"
    using h assms(3) by (simp add: n_def c_def)
  have c: "0 \<le> c" "c < n" and len': "length (late_memory st) = length (early_memory st0)"
    using ok len by (simp_all add: buffer_ok_def n_def c_def)
  have kn: "0 \<le> int k" "int k < n" using assms(3,4) by (simp_all add: n_def)
  have cst: "0 \<le> memory_index st" "memory_index st < int (length (early_memory st))"
    using c len by (simp_all add: c_def n_def)
  have idx: "get_index st (int k) = (c - int k) mod n"
    using get_index_mod [OF kn(1) cst] kn(2) len by (simp add: n_def c_def min_def)
  have ge: "0 \<le> (c - int k) mod n" and lt: "(c - int k) mod n < n"
    using back_slot(1,2) [OF c kn] by simp_all
  have rd: "then_do (write_rates st e l) (\<lambda>st1. np_get (early_memory st1) (get_index st1 (int k)))
              = Inr ((early_memory st)[nat c := e] ! nat ((c - int k) mod n))"
       "then_do (write_rates st e l) (\<lambda>st1. np_get (late_memory st1) (get_index st1 (int k)))
              = Inr ((late_memory st)[nat c := l] ! nat ((c - int k) mod n))"
    unfolding write_rates_ok [OF ok] then_do_Inr
    using ge lt len len' by (simp_all add: idx np_get_in_range n_def c_def)
  show ?thesis
  proof (cases k)
    case 0
    then have "(c - int k) mod n = c" using c by simp
    moreover have "nat c < length (early_memory st)" "nat c < length (late_memory st)"
      using c len len' by (simp_all add: n_def)
    ultimately show ?thesis unfolding rd using 0 by simp
  next
    case (Suc i)
    have i: "i < length prev" using assms(4) Suc by simp
    have ne: "nat c \<noteq> nat ((c - int k) mod n)"
    proof
      assume "nat c = nat ((c - int k) mod n)"
      then have "c = (c - int k) mod n" using ge c(1) by linarith
      then show False using back_slot(3) [OF c kn] kn Suc by (auto split: if_splits)
    qed
    have eq: "c - int k = c - 1 - int i" using Suc by simp
    have old: "early_memory st ! nat ((c - int k) mod n) = fst (rev prev ! i) \<and>
               late_memory st ! nat ((c - int k) mod n) = snd (rev prev ! i)"
      using hist [OF i] unfolding eq .
    have "rev prev ! i = prev ! (length prev - k)" using i Suc by (simp add: rev_nth)
    moreover have "length prev - k < length prev" using i Suc by linarith
    then have "(prev @ [(e, l)]) ! (length prev - k) = prev ! (length prev - k)"
      by (simp add: nth_append)
    ultimately show ?thesis unfolding rd using old ne by simp
  qed
qed

lemma demo_run:
  "run_dynamics demo_dynamics [(0, 1), (0, 2)] =
     Inr (demo_dynamics\<lparr>early_memory := (replicate 61 0)[0 := 0, 1 := 0],
                          late_memory := (replicate 61 0)[0 := 1, 1 := 2],
                          memory_index := 2\<rparr>,
          [0, 0])"
  by (simp add: demo_dynamics_def get_dynamic_rates_def write_rates_def np_set_def np_get_def
      np_index_def get_latencies_def get_lagged_rates_def get_index_def rint_def
      step_dynamics_def advance_index_def
      integrate_def integrate_scalar_def vec_add_def vec_scale_def mat_scale_def dot_vv_def
      dot_mv_def Let_def)

theorem history_round_trip_witness:
  "buffer_ok demo_dynamics \<and>
   run_dynamics demo_dynamics [(0, 1), (0, 2)] =
     Inr (demo_dynamics\<lparr>early_memory := (replicate 61 0)[0 := 0, 1 := 0],
                          late_memory := (replicate 61 0)[0 := 1, 1 := 2],
                          memory_index := 2\<rparr>,
          [0, 0]) \<and>
   length [(0::real, 1::real), (0, 2)] < length (early_memory demo_dynamics) \<and>
   (1::nat) \<le> length [(0::real, 1::real), (0, 2)] \<and>
   then_do (write_rates
              (demo_dynamics\<lparr>early_memory := (replicate 61 0)[0 := 0, 1 := 0],
                              late_memory := (replicate 61 0)[0 := 1, 1 := 2],
                              memory_index := 2\<rparr>) 5 3)
     (\<lambda>st1. np_get (late_memory st1) (get_index st1 (int 1))) = Inr 2"
  using history_round_trip [of demo_dynamics "[(0, 1), (0, 2)]" _ "[0, 0]" 1 5 3] demo_run
  by (simp add: demo_dynamics_def buffer_ok_def)

section \<open>The neuron without dynamics\<close>

lemma get_static_firing_rate_single:
  assumes "position n = complete_tolerance2" and "size_profile n = complete_tolerance"
    and "occlusion n = complete_tolerance2"
  shows "get_static_firing_rate n object_dict [(obj, x, y, s, rx, ry, rz, vn, vd)] =
           Inr (clutter n
                  (Array [max_fire_rate n * (case object_dict obj of None \<Rightarrow> 0 | Some v \<Rightarrow> v)])
                  (Scalar 1))"
  by (simp add: get_static_firing_rate_def assms complete_tolerance_def
      complete_tolerance2_def)

lemma get_static_firing_rate_pair:
  assumes "position n = complete_tolerance2" and "size_profile n = complete_tolerance"
    and "occlusion n = complete_tolerance2"
  shows "get_static_firing_rate n object_dict
           [(obj, x, y, s, rx, ry, rz, vn, vd), (obj', x', y', s', rx', ry', rz', vn', vd')] =
           Inr (clutter n
                  (Array [max_fire_rate n * (case object_dict obj of None \<Rightarrow> 0 | Some v \<Rightarrow> v),
                          max_fire_rate n * (case object_dict obj' of None \<Rightarrow> 0 | Some v \<Rightarrow> v)])
                  (Scalar 1))"
  by (simp add: get_static_firing_rate_def assms complete_tolerance_def
      complete_tolerance2_def)

lemma firing_rate_no_dynamics:
  assumes "dynamics n = None"
  shows "firing_rate n scene =
           (if scene \<noteq> [] then
              then_do (get_static_firing_rate n (selectivity_objects n) scene)
                (\<lambda>rate. Inr (n, rate))
            else Inr (n, 0))"
  by (simp add: firing_rate_def assms)

lemma firing_rate_no_dynamics_state:
  assumes "dynamics n = None" and "firing_rate n scene = Inr (n', r)"
  shows "n' = n"
  using assms(2) unfolding firing_rate_no_dynamics [OF assms(1)]
  by (auto simp: then_do_eq_Inr split: if_splits)

lemma run_scenes_no_dynamics_state:
  assumes "dynamics n = None" and "run_scenes n scenes = Inr (n', rs)"
  shows "n' = n"
  using assms(2)
proof (induction scenes arbitrary: rs)
  case Nil
  then show ?case by simp
next
  case (Cons scene scenes)
  from Cons.prems obtain n1 r n2 rs' where
    f: "firing_rate n scene = Inr (n1, r)" and
    g: "run_scenes n1 scenes = Inr (n2, rs')" and e: "n' = n2"
    by (auto simp: then_do_eq_Inr)
  have "n1 = n" using firing_rate_no_dynamics_state [OF assms(1) f] .
  then show ?case using Cons.IH g e by simp
qed

lemma run_scenes_empty:
  assumes "dynamics n = None"
  shows "run_scenes n (replicate m []) = Inr (n, replicate m 0)"
  by (induction m) (simp_all add: firing_rate_no_dynamics [OF assms])

text \<open>
  Claim C6. A neuron without dynamics, with the preference table \<open>{A: 0.5}\<close>, a maximum
  rate of 100, complete position, size and occlusion tolerances and a clutter rule that
  maps a single isolated rate to that rate, fires at exactly 50 for the scene
  \<open>[(A, x, y, size, 0, 0, 0, 1, 1)]\<close>. An object missing from the table has
  preference 0: alone it gives rate 0, and beside \<open>A\<close> it enters the clutter rule
  with the isolated rate 0.
\<close>

theorem firing_rate_single_object:
  assumes "dynamics n = None" and "selectivity_objects n = [''A'' \<mapsto> 1 / 2]"
    and "max_fire_rate n = 100"
    and "position n = complete_tolerance2" and "size_profile n = complete_tolerance"
    and "occlusion n = complete_tolerance2"
    and "\<forall>r w. clutter n (Array [r]) w = r"
  shows "firing_rate n [(''A'', x, y, s, 0, 0, 0, 1, 1)] = Inr (n, 50) \<and>
         (obj \<noteq> ''A'' \<longrightarrow>
            firing_rate n [(obj, x, y, s, rx, ry, rz, vn, vd)] = Inr (n, 0) \<and>
            firing_rate n [(''A'', x, y, s, 0, 0, 0, 1, 1), (obj, x', y', s', rx, ry, rz, vn, vd)]
              = Inr (n, clutter n (Array [50, 0]) (Scalar 1)))"
  using assms(7)
  by (simp add: firing_rate_no_dynamics [OF assms(1)]
      get_static_firing_rate_single [OF assms(4,5,6)]
      get_static_firing_rate_pair [OF assms(4,5,6)] assms(2,3))

theorem firing_rate_single_object_witness:
  "dynamics demo_neuron = None \<and> selectivity_objects demo_neuron = [''A'' \<mapsto> 1 / 2] \<and>
   max_fire_rate demo_neuron = 100 \<and> position demo_neuron = complete_tolerance2 \<and>
   size_profile demo_neuron = complete_tolerance \<and>
   occlusion demo_neuron = complete_tolerance2 \<and>
   (\<forall>r w. clutter demo_neuron (Array [r]) w = r) \<and> ''B'' \<noteq> ''A'' \<and>
   firing_rate demo_neuron [(''A'', 3, 4, 2, 0, 0, 0, 1, 1)] = Inr (demo_neuron, 50) \<and>
   firing_rate demo_neuron [(''B'', 3, 4, 2, 0, 0, 0, 1, 1)] = Inr (demo_neuron, 0) \<and>
   firing_rate demo_neuron [(''A'', 3, 4, 2, 0, 0, 0, 1, 1), (''B'', 1, 1, 1, 0, 0, 0, 1, 1)]
     = Inr (demo_neuron, 25)"
  using firing_rate_single_object [of demo_neuron 3 4 2 "''B''" 0 0 0 1 1 1 1 1]
  by (simp add: demo_neuron_def demo_prefs_def)

text \<open>
  Claim C7. A neuron without dynamics returns 0 for the empty scene, whatever scenes it
  was given before and however often the empty scene is repeated.
\<close>

theorem firing_rate_empty_scene:
  assumes "dynamics n = None" and "run_scenes n earlier = Inr (n', rs)"
  shows "firing_rate n' [] = Inr (n', 0) \<and>
         run_scenes n' (replicate m []) = Inr (n', replicate m 0)"
proof -
  have "n' = n" using run_scenes_no_dynamics_state [OF assms] .
  then have d: "dynamics n' = None" using assms(1) by simp
  show ?thesis using run_scenes_empty [OF d] by (simp add: firing_rate_no_dynamics [OF d])
qed

lemma demo_scene_run:
  "run_scenes demo_neuron [[(''A'', 3, 4, 2, 0, 0, 0, 1, 1)], []] = Inr (demo_neuron, [50, 0])"
  by (simp add: firing_rate_def get_static_firing_rate_def demo_neuron_def demo_prefs_def
      complete_tolerance_def complete_tolerance2_def)

theorem firing_rate_empty_scene_witness:
  "dynamics demo_neuron = None \<and>
   run_scenes demo_neuron [[(''A'', 3, 4, 2, 0, 0, 0, 1, 1)], []] = Inr (demo_neuron, [50, 0]) \<and>
   firing_rate demo_neuron [] = Inr (demo_neuron, 0) \<and>
   run_scenes demo_neuron (replicate 3 []) = Inr (demo_neuron, replicate 3 0)"
  using firing_rate_empty_scene
    [of demo_neuron "[[(''A'', 3, 4, 2, 0, 0, 0, 1, 1)], []]" demo_neuron "[50, 0]" 3]
    demo_scene_run
  by (simp add: demo_neuron_def)

section \<open>Construction\<close>

lemma buffer_size_ge:
  assumes "float_ops_ok fo" and "0 < dt0" and "0 \<le> max_latency"
  shows "10 \<le> trunc (fadd fo (fadd fo (fdiv fo max_latency dt0) 1) 10)"
proof -
  have q: "0 \<le> fdiv fo max_latency dt0" using assms by (simp add: float_ops_ok_def)
  have "1 \<le> fadd fo (fdiv fo max_latency dt0) 1"
    using assms(1) q by (simp add: float_ops_ok_def)
  then have "0 \<le> fadd fo (fdiv fo max_latency dt0) 1" by linarith
  then have s: "10 \<le> fadd fo (fadd fo (fdiv fo max_latency dt0) 1) 10"
    using assms(1) by (simp add: float_ops_ok_def)
  then have "of_int 10 \<le> fadd fo (fadd fo (fdiv fo max_latency dt0) 1) 10" by simp
  then have "10 \<le> \<lfloor>fadd fo (fadd fo (fdiv fo max_latency dt0) 1) 10\<rfloor>"
    by (simp only: le_floor_iff)
  then show ?thesis using s by (simp add: trunc_def)
qed

lemma trunc_exact_sum:
  assumes "0 \<le> (m::real)"
  shows "trunc (m + 1 + 10) = \<lfloor>m\<rfloor> + 1 + 10"
proof -
  have "m + 1 + 10 = m + of_int 11" by simp
  then have "\<lfloor>m + 1 + 10\<rfloor> = \<lfloor>m\<rfloor> + 11" by (simp only: floor_add_int)
  then show ?thesis using assms by (simp add: trunc_def)
qed

lemma init_dynamics_ok:
  assumes "0 < dt0" and "0 \<le> max_latency" and "float_ops_ok fo"
  shows "\<exists>st. init_dynamics fo dt0 obj_dict max_latency d = Inr st \<and>
           early_memory st =
             replicate (nat (trunc (fadd fo (fadd fo (fdiv fo max_latency dt0) 1) 10))) 0 \<and>
           late_memory st =
             replicate (nat (trunc (fadd fo (fadd fo (fdiv fo max_latency dt0) 1) 10))) 0 \<and>
           memory_index st = 0 \<and> early_x st = [0, 0] \<and> late_x st = 0 \<and>
           early_A st = [[-1, 0], [1, -1]] \<and> early_B st = [1, 0] \<and>
           late_A st = -1 \<and> late_B st = 1 \<and> length (early_C st) = 2 \<and>
           late_additional_latency st = 10 \<and> dt st = dt0 \<and> arith st = fo \<and>
           min_latencies st = 9 / 100 + 1 / 100 * rand_min d \<and>
           max_latencies st = min max_latency (9 / 100 + 1 / 100 * rand_min d + gamma_max d) \<and>
           tau_latencies st = gamma_tau d"
proof -
  have n: "\<not> trunc (fadd fo (fadd fo (fdiv fo max_latency dt0) 1) 10) < 0"
    using buffer_size_ge [OF assms(3,1,2)] by linarith
  show ?thesis
    unfolding init_dynamics_def Let_def
    using assms(1) n by simp
qed

text \<open>The constructor builds a well-formed engine.\<close>

lemma init_dynamics_wf:
  assumes "0 < dt0" and "0 \<le> max_latency" and "valid_draws d"
    and "5 / 100 + 1 / 100 * randn_late d \<noteq> 0"
    and "float_ops_ok fo"
    and "init_dynamics fo dt0 obj_dict max_latency d = Inr st"
  shows "wf_dynamics st"
proof -
  have eq: "st = \<lparr> dt = dt0,
       profile_type = ''Tamura_dynamic_profile'',
       early_obj_pref = get_early_object_selectivities obj_dict,
       min_latencies = 9 / 100 + 1 / 100 * rand_min d,
       max_latencies = min max_latency (9 / 100 + 1 / 100 * rand_min d + gamma_max d),
       tau_latencies = gamma_tau d,
       late_additional_latency = 10,
       early_memory = replicate (nat (trunc (fadd fo (fadd fo (fdiv fo max_latency dt0) 1) 10))) 0,
       late_memory = replicate (nat (trunc (fadd fo (fadd fo (fdiv fo max_latency dt0) 1) 10))) 0,
       memory_index = 0,
       early_tau = max (5 / 1000) (17 / 1000 + 5 / 1000 * randn_early d),
       late_tau = 5 / 100 + 1 / 100 * randn_late d,
       early_A = [[-1, 0], [1, -1]],
       early_B = [1, 0],
       late_A = -1,
       late_B = 1,
       early_C = [(15 / 10) / (39 / 100), - ((15 / 10) / (39 / 100))],
       late_C = 1,
       early_x = [0, 0],
       late_x = 0,
       arith = fo \<rparr>"
    using assms(6) by (auto simp: init_dynamics_def Let_def split: if_splits)
  have pos: "0 < trunc (fadd fo (fadd fo (fdiv fo max_latency dt0) 1) 10)"
    using buffer_size_ge [OF assms(5,1,2)] by linarith
  have g: "0 < gamma_tau d" using assms(3) by (simp add: valid_draws_def)
  show ?thesis
    unfolding eq using assms(1,4) pos g
    by (simp add: wf_dynamics_def buffer_ok_def max_def)
qed

text \<open>
  Claim C8, as amended. For a positive time step and a non-negative latency ceiling the
  constructor allocates both history buffers with \<open>int(max_latency / dt + 1 + 10)\<close>
  slots: the sum as the machine's float operations give it, truncated. Where those
  operations give the exact sum this is \<open>\<lfloor>max_latency / dt\<rfloor> + 1 + 10\<close>, and
  \<open>\<lceil>max_latency / dt\<rceil> + 1 + 10\<close> if, moreover, \<open>max_latency / dt\<close> is a whole number.
  Both buffers have the same length, they share one cursor that starts at 0, and each
  step moves the cursor on by one modulo that length and leaves the lengths alone.
\<close>

theorem init_memory_length:
  assumes "0 < dt0" and "0 \<le> max_latency" and "float_ops_ok fo"
  shows "(\<exists>st0. init_dynamics fo dt0 obj_dict max_latency d = Inr st0 \<and>
            int (length (early_memory st0))
              = trunc (fadd fo (fadd fo (fdiv fo max_latency dt0) 1) 10) \<and>
            length (late_memory st0) = length (early_memory st0) \<and>
            memory_index st0 = 0 \<and> buffer_ok st0) \<and>
         (fadd fo (fadd fo (fdiv fo max_latency dt0) 1) 10 = max_latency / dt0 + 1 + 10 \<longrightarrow>
            trunc (fadd fo (fadd fo (fdiv fo max_latency dt0) 1) 10)
              = \<lfloor>max_latency / dt0\<rfloor> + 1 + 10 \<and>
            (max_latency / dt0 \<in> \<int> \<longrightarrow>
               trunc (fadd fo (fadd fo (fdiv fo max_latency dt0) 1) 10)
                 = \<lceil>max_latency / dt0\<rceil> + 1 + 10)) \<and>
         (buffer_ok st \<longrightarrow> get_dynamic_rates st e l = Inr (st', y) \<longrightarrow>
            length (early_memory st') = length (early_memory st) \<and>
            length (late_memory st') = length (late_memory st) \<and>
            memory_index st' = (memory_index st + 1) mod int (length (early_memory st)))"
proof (intro conjI impI)
  let ?n = "trunc (fadd fo (fadd fo (fdiv fo max_latency dt0) 1) 10)"
  have pos: "0 < ?n" using buffer_size_ge [OF assms(3,1,2)] by linarith
  obtain st0 where i: "init_dynamics fo dt0 obj_dict max_latency d = Inr st0"
    and em: "early_memory st0 = replicate (nat ?n) 0"
    and lm: "late_memory st0 = replicate (nat ?n) 0"
    and c: "memory_index st0 = 0"
    using init_dynamics_ok [OF assms, of obj_dict d] by blast
  have "int (length (early_memory st0)) = ?n" using pos by (simp add: em)
  moreover have "length (late_memory st0) = length (early_memory st0)" by (simp add: em lm)
  moreover have "buffer_ok st0" using pos by (simp add: buffer_ok_def em lm c)
  ultimately show "\<exists>st0. init_dynamics fo dt0 obj_dict max_latency d = Inr st0 \<and>
            int (length (early_memory st0)) = ?n \<and>
            length (late_memory st0) = length (early_memory st0) \<and>
            memory_index st0 = 0 \<and> buffer_ok st0"
    using i c by blast
next
  assume ex: "fadd fo (fadd fo (fdiv fo max_latency dt0) 1) 10 = max_latency / dt0 + 1 + 10"
  have m: "0 \<le> max_latency / dt0" using assms(1,2) by simp
  show fl: "trunc (fadd fo (fadd fo (fdiv fo max_latency dt0) 1) 10)
              = \<lfloor>max_latency / dt0\<rfloor> + 1 + 10"
    unfolding ex using m by (rule trunc_exact_sum)
  assume "max_latency / dt0 \<in> \<int>"
  then have "\<lfloor>max_latency / dt0\<rfloor> = \<lceil>max_latency / dt0\<rceil>" by (auto simp: Ints_def)
  then show "trunc (fadd fo (fadd fo (fdiv fo max_latency dt0) 1) 10)
               = \<lceil>max_latency / dt0\<rceil> + 1 + 10"
    using fl by simp
next
  assume ok: "buffer_ok st" and stp: "get_dynamic_rates st e l = Inr (st', y)"
  note buf = get_dynamic_rates_buffer [OF ok stp]
  show "length (early_memory st') = length (early_memory st)" by (simp add: buf(1))
  show "length (late_memory st') = length (late_memory st)" by (simp add: buf(2))
  have c: "0 \<le> memory_index st" "memory_index st < int (length (early_memory st))"
    using ok by (simp_all add: buffer_ok_def)
  show "memory_index st' = (memory_index st + 1) mod int (length (early_memory st))"
  proof (cases "memory_index st + 1 = int (length (early_memory st))")
    case True
    then show ?thesis unfolding buf(3) by simp
  next
    case False
    then have "(memory_index st + 1) mod int (length (early_memory st)) = memory_index st + 1"
      using c by (intro mod_pos_pos_trivial) linarith+
    then show ?thesis unfolding buf(3) using False by simp
  qed
qed

text \<open>
  With a time step of 4 ms and the default ceiling of 0.25 s the quotient is 62.5, with
  and without rounding: the buffers get 73 slots, not the \<open>\<lceil>62.5\<rceil> + 1 + 10 = 74\<close> of the
  claim as stated.
\<close>

theorem init_memory_length_counterexample:
  "map_sum id (length \<circ> early_memory)
     (init_dynamics exact_ops (4 / 1000) demo_prefs (1 / 4) demo_draws) = Inr 73 \<and>
   nat (\<lceil>(1 / 4) / (4 / 1000) :: real\<rceil> + 1 + 10) = 74"
  by (simp add: init_dynamics_def trunc_def Let_def)

lemma demo_first_step:
  "get_dynamic_rates demo_dynamics 0 1 =
     Inr (demo_dynamics\<lparr>early_memory := (replicate 61 0)[0 := 0],
                          late_memory := (replicate 61 0)[0 := 1],
                          memory_index := 1\<rparr>, 0)"
  by (simp add: demo_dynamics_def get_dynamic_rates_def write_rates_def np_set_def np_get_def
      np_index_def get_latencies_def get_lagged_rates_def get_index_def rint_def
      step_dynamics_def advance_index_def
      integrate_def integrate_scalar_def vec_add_def vec_scale_def mat_scale_def dot_vv_def
      dot_mv_def Let_def)

theorem init_memory_length_witness:
  "(0::real) < 5 / 1000 \<and> (0::real) \<le> 1 / 4 \<and> float_ops_ok exact_ops \<and>
   init_dynamics exact_ops (5 / 1000) demo_prefs (1 / 4) demo_draws = Inr demo_dynamics \<and>
   length (early_memory demo_dynamics) = 61 \<and> length (late_memory demo_dynamics) = 61 \<and>
   fadd exact_ops (fadd exact_ops (fdiv exact_ops (1 / 4) (5 / 1000)) 1) 10
     = (1 / 4) / (5 / 1000) + 1 + 10 \<and>
   ((1 / 4) / (5 / 1000) :: real) \<in> \<int> \<and>
   trunc (fadd exact_ops (fadd exact_ops (fdiv exact_ops (1 / 4) (5 / 1000)) 1) 10)
     = \<lceil>(1 / 4) / (5 / 1000) :: real\<rceil> + 1 + 10 \<and>
   buffer_ok demo_dynamics \<and>
   get_dynamic_rates demo_dynamics 0 1 =
     Inr (demo_dynamics\<lparr>early_memory := (replicate 61 0)[0 := 0],
                          late_memory := (replicate 61 0)[0 := 1],
                          memory_index := 1\<rparr>, 0) \<and>
   memory_index (demo_dynamics\<lparr>early_memory := (replicate 61 0)[0 := 0],
                          late_memory := (replicate 61 0)[0 := 1],
                          memory_index := 1\<rparr>)
     = (memory_index demo_dynamics + 1) mod int (length (early_memory demo_dynamics))"
  using init_memory_length [of "5 / 1000" "1 / 4" exact_ops demo_prefs demo_draws
      demo_dynamics 0 1
      "demo_dynamics\<lparr>early_memory := (replicate 61 0)[0 := 0],
                          late_memory := (replicate 61 0)[0 := 1],
                          memory_index := 1\<rparr>" 0]
    demo_first_step init_demo_dynamics exact_ops_ok
  by (simp add: demo_dynamics_def buffer_ok_def trunc_def)

section \<open>The latency parameters\<close>

lemma write_rates_params:
  assumes "write_rates st e l = Inr st1"
  shows "min_latencies st1 = min_latencies st \<and> max_latencies st1 = max_latencies st \<and>
         tau_latencies st1 = tau_latencies st"
  using assms by (auto simp: write_rates_def then_do_eq_Inr)

lemma get_dynamic_rates_params:
  assumes "get_dynamic_rates st e l = Inr (st', y)"
  shows "min_latencies st' = min_latencies st \<and> max_latencies st' = max_latencies st \<and>
         tau_latencies st' = tau_latencies st"
proof -
  from assms obtain st1 eu lu where w: "write_rates st e l = Inr st1"
    and s: "step_dynamics (advance_index st1) eu lu = (st', y)"
    unfolding get_dynamic_rates_def Let_def by (auto simp: then_do_eq_Inr)
  have "st' = fst (step_dynamics (advance_index st1) eu lu)" using s by simp
  then show ?thesis using write_rates_params [OF w] by simp
qed

lemma run_dynamics_params:
  assumes "run_dynamics st ins = Inr (st', ys)"
  shows "min_latencies st' = min_latencies st \<and> max_latencies st' = max_latencies st \<and>
         tau_latencies st' = tau_latencies st"
  using assms
proof (induction ins arbitrary: st ys)
  case Nil
  then show ?case by simp
next
  case (Cons a ins)
  obtain e l where a: "a = (e, l)" by (cases a)
  from Cons.prems obtain st1 y ys1 where
    s: "get_dynamic_rates st e l = Inr (st1, y)" and
    r: "run_dynamics st1 ins = Inr (st', ys1)"
    unfolding a by (auto simp: then_do_eq_Inr)
  show ?case using Cons.IH [OF r] get_dynamic_rates_params [OF s] by simp
qed

text \<open>
  Claim C9, as amended. For every outcome of the random draws and every latency ceiling
  that is not below the drawn minimum latency (any ceiling of at least 0.1 s, the default
  0.25 s among them), a constructed engine has
  \<open>min_latency \<le> max_latency \<le> ceiling\<close> and \<open>tau_latency > 0\<close>, and no sequence of
  per-step updates changes the three values.
\<close>

theorem latency_parameters:
  assumes "valid_draws d" and "init_dynamics fo dt0 obj_dict max_latency d = Inr st"
    and "min_latencies st \<le> max_latency"
  shows "min_latencies st \<le> max_latencies st \<and> max_latencies st \<le> max_latency \<and>
         0 < tau_latencies st \<and>
         (run_dynamics st ins = Inr (st', ys) \<longrightarrow>
            min_latencies st' = min_latencies st \<and> max_latencies st' = max_latencies st \<and>
            tau_latencies st' = tau_latencies st)"
proof -
  have mn: "min_latencies st = 9 / 100 + 1 / 100 * rand_min d"
    and mx: "max_latencies st = min max_latency (min_latencies st + gamma_max d)"
    and tau: "tau_latencies st = gamma_tau d"
    using assms(2) by (auto simp: init_dynamics_def Let_def split: if_splits)
  have g: "0 < gamma_max d" "0 < gamma_tau d" using assms(1) by (simp_all add: valid_draws_def)
  have "min_latencies st \<le> max_latencies st" unfolding mx using assms(3) g by simp
  moreover have "max_latencies st \<le> max_latency" unfolding mx by simp
  moreover have "0 < tau_latencies st" using tau g by simp
  ultimately show ?thesis using run_dynamics_params by blast
qed

text \<open>
  A ceiling of 10 ms lies below every possible minimum latency (at least 90 ms): the
  constructor then sets \<open>max_latency\<close> to the ceiling, below \<open>min_latency\<close>.
\<close>

theorem latency_parameters_counterexample:
  "valid_draws demo_draws \<and>
   init_dynamics exact_ops (5 / 1000) demo_prefs (1 / 100) demo_draws = Inr short_dynamics \<and>
   \<not> min_latencies short_dynamics \<le> max_latencies short_dynamics"
  using init_short_dynamics
  by (simp add: valid_draws_def demo_draws_def short_dynamics_def demo_dynamics_def)

theorem latency_parameters_witness:
  "valid_draws demo_draws \<and>
   init_dynamics exact_ops (5 / 1000) demo_prefs (1 / 4) demo_draws = Inr demo_dynamics \<and>
   min_latencies demo_dynamics \<le> 1 / 4 \<and>
   min_latencies demo_dynamics \<le> max_latencies demo_dynamics \<and>
   max_latencies demo_dynamics \<le> 1 / 4 \<and> 0 < tau_latencies demo_dynamics \<and>
   run_dynamics demo_dynamics [(0, 1), (0, 2)] =
     Inr (demo_dynamics\<lparr>early_memory := (replicate 61 0)[0 := 0, 1 := 0],
                          late_memory := (replicate 61 0)[0 := 1, 1 := 2],
                          memory_index := 2\<rparr>,
          [0, 0]) \<and>
   max_latencies (demo_dynamics\<lparr>early_memory := (replicate 61 0)[0 := 0, 1 := 0],
                          late_memory := (replicate 61 0)[0 := 1, 1 := 2],
                          memory_index := 2\<rparr>) = 1 / 4"
  using latency_parameters [of demo_draws exact_ops "5 / 1000" demo_prefs "1 / 4" demo_dynamics
      "[(0, 1), (0, 2)]" _ "[0, 0]"]
    init_demo_dynamics demo_run
  by (simp add: valid_draws_def demo_draws_def demo_dynamics_def)

section \<open>The engine at rest\<close>

lemma floor_le_rint: "\<lfloor>x\<rfloor> \<le> rint x"
  by (simp add: rint_def Let_def)

lemma rint_nonneg: "0 \<le> x \<Longrightarrow> 0 \<le> rint x"
  using floor_le_rint [of x] by (simp add: order_trans [of 0 "\<lfloor>x\<rfloor>"])

lemma rint_ge: "of_int n \<le> x \<Longrightarrow> n \<le> rint x"
  using floor_le_rint [of x] le_floor_iff [of n x] by linarith

lemma replicate_update_same: "(replicate n x)[i := x] = replicate n x"
  by (cases "i < n") (auto simp: list_eq_iff_nth_eq nth_list_update)

lemma dot_vv_zero2: "dot_vv c [0, 0] = 0"
proof (cases c)
  case Nil
  then show ?thesis by (simp add: dot_vv_def)
next
  case (Cons a c')
  then show ?thesis by (cases c') (simp_all add: dot_vv_def)
qed

lemma step_dynamics_rest:
  assumes "early_x st = [0, 0]" and "late_x st = 0"
    and "early_A st = [[-1, 0], [1, -1]]" and "early_B st = [1, 0]"
  shows "snd (step_dynamics st 0 0) = 0"
    and "early_x (fst (step_dynamics st 0 0)) = [0, 0]"
    and "late_x (fst (step_dynamics st 0 0)) = 0"
  using assms
  by (simp_all add: step_dynamics_def integrate_def integrate_scalar_def vec_add_def
      vec_scale_def mat_scale_def dot_mv_def dot_vv_zero2 Let_def)

lemma get_latencies_zero: "get_latencies st 0 = max_latencies st"
  by (simp add: get_latencies_def)

lemma zero_step:
  assumes "wf_dynamics st" and "at_rest st"
    and "0 \<le> fdiv (arith st) (max_latencies st) (dt st)"
  shows "\<exists>st'. get_dynamic_rates st 0 0 = Inr (st', 0) \<and> wf_dynamics st' \<and> at_rest st' \<and>
           max_latencies st' = max_latencies st \<and> dt st' = dt st \<and> arith st' = arith st"
proof -
  have ok: "buffer_ok st" and add: "0 \<le> late_additional_latency st"
    using assms(1) by (simp_all add: wf_dynamics_def)
  let ?k = "rint (fdiv (arith st) (get_latencies st 0) (dt st))"
  have k: "0 \<le> ?k" using assms(3) by (simp add: get_latencies_zero rint_nonneg)
  have k2: "0 \<le> ?k + late_additional_latency st" using k add by simp
  have c: "0 \<le> memory_index st" "memory_index st < int (length (early_memory st))"
    and len: "length (late_memory st) = length (early_memory st)"
    using ok by (simp_all add: buffer_ok_def)
  have em: "early_memory st = replicate (length (early_memory st)) 0"
    and lm: "late_memory st = replicate (length (early_memory st)) 0"
    and x: "early_x st = [0, 0]" "late_x st = 0"
           "early_A st = [[-1, 0], [1, -1]]" "early_B st = [1, 0]"
    using assms(2) len by (simp_all add: at_rest_def)
  have em1: "(early_memory st)[nat (memory_index st) := 0] = early_memory st"
    using replicate_update_same [of "length (early_memory st)" "0::real"] em by metis
  have lm1: "(late_memory st)[nat (memory_index st) := 0] = late_memory st"
    using replicate_update_same [of "length (early_memory st)" "0::real"] lm by metis
  have e0: "early_memory st ! nat (get_index st ?k) = 0"
    using get_index_bounds [OF k c] nth_replicate [of "nat (get_index st ?k)" "length (early_memory st)" "0::real"] em
    by (metis nat_less_iff)
  have l0: "late_memory st ! nat (get_index st (?k + late_additional_latency st)) = 0"
    using get_index_bounds [OF k2 c]
      nth_replicate [of "nat (get_index st (?k + late_additional_latency st))" "length (early_memory st)" "0::real"] lm
    by (metis nat_less_iff)
  define st1 where "st1 = advance_index (st\<lparr>early_memory := early_memory st,
                                             late_memory := late_memory st\<rparr>)"
  have r: "get_dynamic_rates st 0 0 = Inr (step_dynamics st1 0 0)"
    unfolding get_dynamic_rates_ok [OF ok add k] Let_def st1_def
    by (simp add: em1 lm1 e0 l0)
  have x1: "early_x st1 = [0, 0]" "late_x st1 = 0"
           "early_A st1 = [[-1, 0], [1, -1]]" "early_B st1 = [1, 0]"
    using x by (simp_all add: st1_def)
  define st' where "st' = fst (step_dynamics st1 0 0)"
  have res: "step_dynamics st1 0 0 = (st', 0)"
    using step_dynamics_rest(1) [OF x1] by (simp add: st'_def prod_eq_iff)
  have stp: "get_dynamic_rates st 0 0 = Inr (st', 0)" using r res by simp
  have ok': "buffer_ok st'" using get_dynamic_rates_buffer_ok(1) [OF ok stp] .
  have par: "late_additional_latency st' = late_additional_latency st" "dt st' = dt st"
    "early_tau st' = early_tau st" "late_tau st' = late_tau st"
    "tau_latencies st' = tau_latencies st" "max_latencies st' = max_latencies st"
    "early_A st' = early_A st" "early_B st' = early_B st"
    "late_A st' = late_A st" "late_B st' = late_B st" "early_C st' = early_C st"
    "arith st' = arith st"
    by (simp_all add: st'_def st1_def)
  have mem: "early_memory st' = early_memory st" "late_memory st' = late_memory st"
    by (simp_all add: st'_def st1_def)
  have rest': "at_rest st'"
    using assms(2) step_dynamics_rest(2,3) [OF x1]
    by (simp add: at_rest_def mem par st'_def [symmetric])
  then have "length (early_x st') = 2" by (simp add: at_rest_def)
  then have wf': "wf_dynamics st'" using assms(1) ok' by (simp add: wf_dynamics_def par)
  show ?thesis using stp wf' rest' par(2,6,12) by blast
qed

lemma zero_run:
  assumes "wf_dynamics st" and "at_rest st"
    and "0 \<le> fdiv (arith st) (max_latencies st) (dt st)"
  shows "\<exists>st'. run_dynamics st (replicate m (0, 0)) = Inr (st', replicate m 0)"
  using assms
proof (induction m arbitrary: st)
  case 0
  then show ?case by simp
next
  case (Suc m)
  from zero_step [OF Suc.prems] obtain st1 where
    s: "get_dynamic_rates st 0 0 = Inr (st1, 0)" and wf1: "wf_dynamics st1"
    and r1: "at_rest st1"
    and p: "max_latencies st1 = max_latencies st" "dt st1 = dt st" "arith st1 = arith st"
    by blast
  have "0 \<le> fdiv (arith st1) (max_latencies st1) (dt st1)" using Suc.prems(3) p by simp
  from Suc.IH [OF wf1 r1 this] obtain st2 where
    "run_dynamics st1 (replicate m (0, 0)) = Inr (st2, replicate m 0)" by blast
  then show ?case using s by simp
qed

text \<open>
  Claim C10. A freshly constructed engine (positive time step, non-negative ceiling,
  draws inside the support of their distributions, a late time constant other than
  zero, on any machine whose float operations are as \<open>float_ops_ok\<close> says) that is fed
  the rates \<open>(0, 0)\<close> returns 0 at every call, for any number \<open>m\<close> of consecutive calls,
  and none of the calls raises.
\<close>

theorem zero_input_fixed_point:
  assumes "0 < dt0" and "0 \<le> max_latency" and "valid_draws d"
    and "5 / 100 + 1 / 100 * randn_late d \<noteq> 0"
    and "init_dynamics fo dt0 obj_dict max_latency d = Inr st0"
    and "float_ops_ok fo"
  shows "\<exists>st. run_dynamics st0 (replicate m (0, 0)) = Inr (st, replicate m 0)"
proof -
  let ?n = "trunc (fadd fo (fadd fo (fdiv fo max_latency dt0) 1) 10)"
  have pos: "0 < ?n" using buffer_size_ge [OF assms(6,1,2)] by linarith
  from init_dynamics_ok [OF assms(1,2,6), of obj_dict d] assms(5)
  have em: "early_memory st0 = replicate (nat ?n) 0"
    and lm: "late_memory st0 = replicate (nat ?n) 0"
    and c: "memory_index st0 = 0" and x: "early_x st0 = [0, 0]" "late_x st0 = 0"
    and ab: "early_A st0 = [[-1, 0], [1, -1]]" "early_B st0 = [1, 0]"
    and lab: "late_A st0 = -1" "late_B st0 = 1" "length (early_C st0) = 2"
    and la: "late_additional_latency st0 = 10" and dt0: "dt st0 = dt0"
    and ar: "arith st0 = fo"
    and mn: "min_latencies st0 = 9 / 100 + 1 / 100 * rand_min d"
    and mx: "max_latencies st0
               = min max_latency (9 / 100 + 1 / 100 * rand_min d + gamma_max d)"
    and tl: "tau_latencies st0 = gamma_tau d"
    by auto
  have taus: "early_tau st0 = max (5 / 1000) (17 / 1000 + 5 / 1000 * randn_early d)"
    "late_tau st0 = 5 / 100 + 1 / 100 * randn_late d"
    using assms(5) by (auto simp: init_dynamics_def Let_def split: if_splits)
  have d: "0 \<le> rand_min d" "0 < gamma_max d" "0 < gamma_tau d"
    using assms(3) by (simp_all add: valid_draws_def)
  have ok: "buffer_ok st0" using pos by (simp add: buffer_ok_def em lm c)
  have et: "early_tau st0 \<noteq> 0" unfolding taus by (simp add: max_def)
  have wf: "wf_dynamics st0"
    using ok et assms(1,4) d by (simp add: wf_dynamics_def la dt0 taus(2) tl ab lab x)
  have rest: "at_rest st0" by (simp add: at_rest_def em lm x ab)
  have "0 \<le> max_latencies st0" unfolding mx using assms(2) d by simp
  then have lat: "0 \<le> fdiv (arith st0) (max_latencies st0) (dt st0)"
    using assms(1,6) by (simp add: dt0 ar float_ops_ok_def)
  show ?thesis using zero_run [OF wf rest lat] .
qed

theorem zero_input_fixed_point_witness:
  "(0::real) < 5 / 1000 \<and> (0::real) \<le> 1 / 4 \<and> valid_draws demo_draws \<and>
   5 / 100 + 1 / 100 * randn_late demo_draws \<noteq> 0 \<and>
   init_dynamics exact_ops (5 / 1000) demo_prefs (1 / 4) demo_draws = Inr demo_dynamics \<and>
   float_ops_ok exact_ops \<and>
   (\<exists>st. run_dynamics demo_dynamics (replicate 3 (0, 0)) = Inr (st, replicate 3 0))"
  using zero_input_fixed_point
      [of "5 / 1000" "1 / 4" demo_draws exact_ops demo_prefs demo_dynamics 3]
    init_demo_dynamics exact_ops_ok
  by (simp add: valid_draws_def demo_draws_def)

section \<open>Delays beyond the buffer length\<close>

lemma get_lagged_rates_saturated:
  assumes "buffer_ok st" and "0 \<le> late_additional_latency st"
    and "int (length (early_memory st)) \<le> rint (fdiv (arith st) latencies (dt st))"
  shows "get_lagged_rates st latencies =
           Inr (early_memory st ! nat (memory_index st), late_memory st ! nat (memory_index st))"
proof -
  have c: "0 \<le> memory_index st" "memory_index st < int (length (early_memory st))"
    using assms(1) by (simp_all add: buffer_ok_def)
  have k: "0 \<le> rint (fdiv (arith st) latencies (dt st))" using assms(3) by linarith
  have k2: "int (length (early_memory st)) \<le> rint (fdiv (arith st) latencies (dt st)) + late_additional_latency st"
    using assms(2,3) by linarith
  show ?thesis
    unfolding get_lagged_rates_ok [OF assms(1,2) k]
      get_index_saturated [OF assms(3) c] get_index_saturated [OF k2 c] ..
qed

lemma exp_minus_10_bounds: "0 < exp (- 10 :: real)" "exp (- 10 :: real) \<le> 1 / 11"
proof -
  have "1 + 10 \<le> exp (10::real)" by (rule exp_ge_add_one_self)
  then have "1 / exp (10::real) \<le> 1 / 11" by (intro divide_left_mono) simp_all
  then show "exp (- 10 :: real) \<le> 1 / 11" by (simp add: exp_minus inverse_eq_divide)
  show "0 < exp (- 10 :: real)" by simp
qed

lemma short_latency_steps: "13 \<le> rint (fdiv (arith short_dynamics) (get_latencies short_dynamics 50) (dt short_dynamics))"
proof -
  have lat: "get_latencies short_dynamics 50 = 9 / 100 - 8 / 100 * exp (- 10)"
    by (simp add: get_latencies_def short_dynamics_def demo_dynamics_def)
  have "(13::real) * (5 / 1000) \<le> 9 / 100 - 8 / 100 * exp (- 10)"
    using exp_minus_10_bounds(2) by simp
  then have "of_int 13 \<le> fdiv (arith short_dynamics) (get_latencies short_dynamics 50)
                            (dt short_dynamics)"
    unfolding lat by (simp add: short_dynamics_def demo_dynamics_def)
  then show ?thesis by (rule rint_ge)
qed

text \<open>
  Claim C4. The claim has a delay above the buffer length return the oldest buffered
  value. \<^verbatim>\<open>_get_index\<close> caps the delay at the buffer length, not at the length minus
  one, so a capped delay lands on the cursor itself: the slot written in this very call
  (\<open>get_lagged_rates_saturated\<close>). On a fresh engine with a ceiling of 10 ms (13 slots)
  the first call with the rates \<open>(50, 7)\<close> asks for delays of at least 13 and 23 steps.
  Every older slot holds 0, yet the lagged inputs are the current rates \<open>(50, 7)\<close>, and
  the call returns a rate above 57 at once. No exception is raised.
\<close>

theorem saturated_read_is_current_sample:
  "then_do (write_rates short_dynamics 50 7) (\<lambda>st1. Inr (early_memory st1 ! 1, late_memory st1 ! 1))
     = Inr (0, 0) \<and>
   then_do (write_rates short_dynamics 50 7)
     (\<lambda>st1. get_lagged_rates st1 (get_latencies st1 50)) = Inr (50, 7) \<and>
   map_sum id snd (get_dynamic_rates short_dynamics 50 7) = Inr (12500 / 221 + 7 / 10)"
proof -
  have ok: "buffer_ok short_dynamics"
    by (simp add: buffer_ok_def short_dynamics_def demo_dynamics_def)
  let ?st1 = "short_dynamics\<lparr>early_memory := (early_memory short_dynamics)[nat (memory_index short_dynamics) := 50],
                  late_memory := (late_memory short_dynamics)[nat (memory_index short_dynamics) := 7]\<rparr>"
  have ok1: "buffer_ok ?st1" using ok by (simp add: buffer_ok_def)
  have add1: "0 \<le> late_additional_latency ?st1"
    by (simp add: short_dynamics_def demo_dynamics_def)
  have lat1: "get_latencies ?st1 50 = get_latencies short_dynamics 50"
    by (simp add: get_latencies_def)
  have k1: "int (length (early_memory ?st1)) \<le> rint (fdiv (arith ?st1) (get_latencies ?st1 50) (dt ?st1))"
    using short_latency_steps unfolding lat1
    by (simp add: short_dynamics_def demo_dynamics_def)
  have lag: "get_lagged_rates ?st1 (get_latencies ?st1 50) = Inr (50, 7)"
    unfolding get_lagged_rates_saturated [OF ok1 add1 k1]
    by (simp add: short_dynamics_def demo_dynamics_def)
  have a: "then_do (write_rates short_dynamics 50 7)
             (\<lambda>st1. Inr (early_memory st1 ! 1, late_memory st1 ! 1)) = Inr (0, 0)"
    unfolding write_rates_ok [OF ok] then_do_Inr
    by (simp add: short_dynamics_def demo_dynamics_def)
  have b: "then_do (write_rates short_dynamics 50 7)
             (\<lambda>st1. get_lagged_rates st1 (get_latencies st1 50)) = Inr (50, 7)"
    unfolding write_rates_ok [OF ok] then_do_Inr using lag .
  have "get_dynamic_rates short_dynamics 50 7 = Inr (step_dynamics (advance_index ?st1) 50 7)"
    unfolding get_dynamic_rates_def write_rates_ok [OF ok] then_do_Inr Let_def lag by simp
  then have c: "map_sum id snd (get_dynamic_rates short_dynamics 50 7) = Inr (12500 / 221 + 7 / 10)"
    by (simp add: step_dynamics_output short_dynamics_def demo_dynamics_def
        integrate_def integrate_scalar_def vec_add_def vec_scale_def mat_scale_def dot_vv_def
        dot_mv_def Let_def)
  show ?thesis using a b c by simp
qed

section \<open>A neuron with a constructed dynamics profile\<close>

text \<open>
  The constructor labels its engine \<^verbatim>\<open>'Tamura_dynamic_profile'\<close>, while \<^verbatim>\<open>firing_rate\<close>
  asks for the label \<^verbatim>\<open>'tamura'\<close>: with an engine from the constructor attached,
  \<^verbatim>\<open>firing_rate\<close> still takes the static branch and leaves the engine untouched.
\<close>

lemma init_dynamics_profile_type:
  assumes "init_dynamics fo dt0 obj_dict max_latency d = Inr st"
  shows "profile_type st = ''Tamura_dynamic_profile''"
  using assms by (auto simp: init_dynamics_def Let_def split: if_splits)

lemma firing_rate_constructed_dynamics:
  assumes "init_dynamics fo dt0 obj_dict max_latency d = Inr st" and "dynamics n = Some st"
  shows "firing_rate n scene =
           (if scene \<noteq> [] then
              then_do (get_static_firing_rate n (selectivity_objects n) scene)
                (\<lambda>rate. Inr (n, rate))
            else Inr (n, 0))"
  using init_dynamics_profile_type [OF assms(1)] assms(2) by (simp add: firing_rate_def)

end
